theory Spec2Isabelle
  imports Complex_Main
begin

section \<open>Data model (src/types/index.ts)\<close>

text \<open>
  The TypeScript interfaces become records. A field declared optional (\<open>f?: T\<close>) has type
  \<open>T option\<close>. Quantities are integers; amounts, prices and the scenario draw of the payment
  capability are real numbers, on which the code only compares. Several interfaces share field
  names; where they would clash the field carries the record's name as a prefix.
\<close>

record OrderItem =
  itemId :: string
  item_name :: string
  item_quantity :: int
  price :: real

record OrderData =
  orderId :: string
  userId :: string
  items :: "OrderItem list"
  totalAmount :: real

datatype OrderStatus = created | cancelled

record Order =
  order_orderId :: string
  order_userId :: string
  order_items :: "OrderItem list"
  order_totalAmount :: real
  status :: OrderStatus
  createdAt :: string
  cancelledAt :: "string option"

record InventoryItem =
  name :: string
  quantity :: int
  reserved :: "int option"

datatype PaymentStatus = completed | refunded

record Payment =
  payment_paymentId :: string
  payment_orderId :: string
  payment_userId :: string
  payment_amount :: real
  payment_status :: PaymentStatus
  processedAt :: string
  refundedAt :: "string option"

record ActivityResult =
  success :: bool
  message :: "string option"

record CreateOrderResult = ActivityResult +
  res_orderId :: "string option"
  res_userId :: "string option"
  res_items :: "OrderItem list option"
  res_totalAmount :: "real option"
  res_status :: "OrderStatus option"
  res_createdAt :: "string option"

record ProcessPaymentResult = ActivityResult +
  paymentId :: "string option"
  amount :: "real option"

record WorkflowResult =
  wf_success :: bool
  wf_orderId :: string
  wf_message :: string
  wf_paymentId :: "string option"
  error :: "string option"

datatype StepType = cancelOrderStep | releaseInventoryStep | refundPaymentStep

record StepData =
  data_orderId :: string
  data_items :: "OrderItem list option"
  data_paymentId :: "string option"

record CompensationStep =
  step_type :: StepType
  data :: StepData

section \<open>Promises, faults and the invocation trace\<close>

text \<open>
  An awaited call either resolves with a value or rejects with a thrown value. The thrown
  value is an \<open>Error\<close> object with its message, or something that is not an \<open>Error\<close>.
  A call also acts on the world outside the workflow, whatever its outcome.
\<close>

datatype thrown = Error string | NonError

type_synonym ('w, 'a) promise = "'w \<Rightarrow> (thrown + 'a) \<times> 'w"

datatype Capability =
  CreateOrder | ReserveInventory | ProcessPayment | SendConfirmationEmail
  | CancelOrder | ReleaseInventory | RefundPayment | SendCancellationEmail

datatype Outcome = ReturnedSuccess | ReturnedFailure | RaisedFault

definition outcome :: "thrown + 'z ActivityResult_scheme \<Rightarrow> Outcome" where
  "outcome r = (case r of Inl e \<Rightarrow> RaisedFault
                | Inr v \<Rightarrow> if success v then ReturnedSuccess else ReturnedFailure)"

text \<open>The eight functions that \<open>proxyActivities\<close> hands to the workflow.\<close>

record 'w Activities =
  createOrder :: "OrderData \<Rightarrow> ('w, CreateOrderResult) promise"
  reserveInventory :: "string \<Rightarrow> OrderItem list \<Rightarrow> ('w, ActivityResult) promise"
  processPayment :: "string \<Rightarrow> string \<Rightarrow> real \<Rightarrow> ('w, ProcessPaymentResult) promise"
  sendConfirmationEmail :: "string \<Rightarrow> string \<Rightarrow> real \<Rightarrow> ('w, ActivityResult) promise"
  cancelOrder :: "StepData \<Rightarrow> ('w, ActivityResult) promise"
  releaseInventory :: "StepData \<Rightarrow> ('w, ActivityResult) promise"
  refundPayment :: "StepData \<Rightarrow> ('w, ActivityResult) promise"
  sendCancellationEmail :: "string \<Rightarrow> string \<Rightarrow> string \<Rightarrow> ('w, ActivityResult) promise"

text \<open>
  The state of one run of \<open>orderWorkflow\<close>: the outside world, the local array
  \<open>compensationSteps\<close>, and a record of every capability invoked so far with its outcome
  (the trace is not in the source; it is what the ordering properties speak about).
\<close>

record 'w Run =
  world :: 'w
  trace :: "(Capability \<times> Outcome) list"
  compensationSteps :: "CompensationStep list"

definition initial :: "'w \<Rightarrow> 'w Run" where
  "initial w = \<lparr>world = w, trace = [], compensationSteps = []\<rparr>"

definition invoke ::
  "Capability \<Rightarrow> ('w, 'z ActivityResult_scheme) promise \<Rightarrow> 'w Run
    \<Rightarrow> (thrown + 'z ActivityResult_scheme) \<times> 'w Run" where
  "invoke c call s =
     (case call (world s) of
        (r, w') \<Rightarrow> (r, s\<lparr>world := w', trace := trace s @ [(c, outcome r)]\<rparr>))"

definition push :: "CompensationStep \<Rightarrow> 'w Run \<Rightarrow> 'w Run" where
  "push step s = s\<lparr>compensationSteps := compensationSteps s @ [step]\<rparr>"

section \<open>The workflow (src/workflows/order-workflow.ts)\<close>

text \<open>\<open>x || d\<close> on an optional string: the default replaces both undefined and the empty string.\<close>

definition or_default :: "string option \<Rightarrow> string \<Rightarrow> string" where
  "or_default x d = (case x of None \<Rightarrow> d | Some v \<Rightarrow> if v = [] then d else v)"

definition truthy :: "string option \<Rightarrow> bool" where
  "truthy x = (case x of None \<Rightarrow> False | Some v \<Rightarrow> v \<noteq> [])"

text \<open>\<open>error instanceof Error ? error.message : 'Unknown error'\<close>\<close>

definition errorMessageOf :: "thrown \<Rightarrow> string" where
  "errorMessageOf e = (case e of Error m \<Rightarrow> m | NonError \<Rightarrow> ''Unknown error'')"

text \<open>
  The body of the outer \<open>try\<close> (lines 34 to 92). It ends by returning the success result
  (\<open>Inr\<close>) or by a throw (\<open>Inl\<close>), of a capability or of the workflow itself; the state at
  that point goes to the \<open>catch\<close> block. The \<open>sleep\<close> timers between the steps resolve
  without effect and are left out.
\<close>

definition forward ::
  "'w Activities \<Rightarrow> OrderData \<Rightarrow> 'w Run \<Rightarrow> (thrown + WorkflowResult) \<times> 'w Run" where
  "forward acts orderData s0 =
     (case invoke CreateOrder (createOrder acts orderData) s0 of
        (Inl e, s1) \<Rightarrow> (Inl e, s1)
      | (Inr _, s1) \<Rightarrow>
        let s1' = push \<lparr>step_type = cancelOrderStep,
                         data = \<lparr>data_orderId = orderId orderData, data_items = None,
                                  data_paymentId = None\<rparr>\<rparr> s1
        in (case invoke ReserveInventory
                   (reserveInventory acts (orderId orderData) (items orderData)) s1' of
              (Inl e, s2) \<Rightarrow> (Inl e, s2)
            | (Inr inventoryResult, s2) \<Rightarrow>
              let s2' = push \<lparr>step_type = releaseInventoryStep,
                               data = \<lparr>data_orderId = orderId orderData,
                                        data_items = Some (items orderData),
                                        data_paymentId = None\<rparr>\<rparr> s2
              in if \<not> success inventoryResult
                 then (Inl (Error ''Insufficient inventory''), s2')
                 else (case invoke ProcessPayment
                              (processPayment acts (orderId orderData) (userId orderData)
                                 (totalAmount orderData)) s2' of
                         (Inl e, s3) \<Rightarrow> (Inl e, s3)
                       | (Inr paymentResult, s3) \<Rightarrow>
                         if \<not> success paymentResult
                         then (Inl (Error (''Payment failed: ''
                                      @ or_default (message paymentResult) ''Unknown error'')), s3)
                         else
                           let s3' = (if truthy (paymentId paymentResult)
                                      then push \<lparr>step_type = refundPaymentStep,
                                                  data = \<lparr>data_orderId = orderId orderData,
                                                           data_items = None,
                                                           data_paymentId = paymentId paymentResult\<rparr>\<rparr> s3
                                      else s3)
                           in (case invoke SendConfirmationEmail
                                      (sendConfirmationEmail acts (orderId orderData)
                                         (userId orderData) (totalAmount orderData)) s3' of
                                 (Inl e, s4) \<Rightarrow> (Inl e, s4)
                               | (Inr _, s4) \<Rightarrow>
                                 (Inr \<lparr>wf_success = True, wf_orderId = orderId orderData,
                                       wf_message = ''Order processed successfully'',
                                       wf_paymentId = paymentId paymentResult,
                                       error = None\<rparr>, s4)))))"

text \<open>The \<open>switch\<close> on the step's type (lines 106 to 116).\<close>

definition compensateStep ::
  "'w Activities \<Rightarrow> CompensationStep \<Rightarrow> 'w Run \<Rightarrow> (thrown + ActivityResult) \<times> 'w Run" where
  "compensateStep acts step s =
     (case step_type step of
        refundPaymentStep \<Rightarrow> invoke RefundPayment (refundPayment acts (data step)) s
      | releaseInventoryStep \<Rightarrow> invoke ReleaseInventory (releaseInventory acts (data step)) s
      | cancelOrderStep \<Rightarrow> invoke CancelOrder (cancelOrder acts (data step)) s)"

text \<open>
  The \<open>for\<close> loop of the \<open>catch\<close> block (lines 101 to 124), given the steps in the order the
  loop visits them. The inner \<open>try\<close>/\<open>catch\<close> only logs a throw and goes on.
\<close>

fun compensate :: "'w Activities \<Rightarrow> CompensationStep list \<Rightarrow> 'w Run \<Rightarrow> 'w Run" where
  "compensate acts [] s = s"
| "compensate acts (step # steps) s =
     (case compensateStep acts step s of
        (Inl compError, s') \<Rightarrow> compensate acts steps s'
      | (Inr _, s') \<Rightarrow> compensate acts steps s')"

text \<open>The \<open>catch\<close> block (lines 93 to 140).\<close>

definition compensation ::
  "'w Activities \<Rightarrow> OrderData \<Rightarrow> thrown \<Rightarrow> 'w Run \<Rightarrow> (thrown + WorkflowResult) \<times> 'w Run" where
  "compensation acts orderData err s =
     (let errorMessage = errorMessageOf err;
          s' = compensate acts (rev (compensationSteps s)) s;
          s'' = (case invoke SendCancellationEmail
                        (sendCancellationEmail acts (orderId orderData) (userId orderData)
                           errorMessage) s' of
                   (Inl emailError, t) \<Rightarrow> t
                 | (Inr _, t) \<Rightarrow> t)
      in (Inr \<lparr>wf_success = False, wf_orderId = orderId orderData,
                wf_message = ''Order cancelled and refunded'',
                wf_paymentId = None, error = Some errorMessage\<rparr>, s''))"

definition orderWorkflow ::
  "'w Activities \<Rightarrow> OrderData \<Rightarrow> 'w \<Rightarrow> (thrown + WorkflowResult) \<times> 'w Run" where
  "orderWorkflow acts orderData w =
     (case forward acts orderData (initial w) of
        (Inr result, s) \<Rightarrow> (Inr result, s)
      | (Inl err, s) \<Rightarrow> compensation acts orderData err s)"

section \<open>The activities (order-activities.ts)\<close>

text \<open>
  The activities follow the type declarations in src/types/index.ts, from line 250 on; the
  line numbers below are those of that file.

  The three module-level maps that stand for the databases. Each key of \<open>inventory\<close> holds
  an object of its own, so updating the object found under a key is updating the map at
  that key.
\<close>

record Stores =
  orders :: "string \<rightharpoonup> Order"
  inventory :: "string \<rightharpoonup> InventoryItem"
  payments :: "string \<rightharpoonup> Payment"

definition initial_inventory :: "string \<rightharpoonup> InventoryItem" where
  "initial_inventory =
     [''item-1'' \<mapsto> \<lparr>name = ''Product 1'', quantity = 10, reserved = None\<rparr>,
      ''item-2'' \<mapsto> \<lparr>name = ''Product 2'', quantity = 5, reserved = None\<rparr>,
      ''item-3'' \<mapsto> \<lparr>name = ''Product 3'', quantity = 8, reserved = None\<rparr>]"

definition initial_stores :: Stores where
  "initial_stores = \<lparr>orders = Map.empty, inventory = initial_inventory, payments = Map.empty\<rparr>"

text \<open>
  What one execution of an activity reads from outside the program: the clock as
  \<open>new Date().toISOString()\<close>, the scenario draw \<open>Math.random() * 100\<close> of the payment
  activity, and the two parts of the payment identifier: the digits of \<open>Date.now()\<close> and the
  suffix \<open>Math.random().toString(36).substring(7)\<close>.
\<close>

record Env =
  now :: string
  random :: real
  date_now :: string
  random_suffix :: string

definition createOrderActivity ::
  "Env \<Rightarrow> OrderData \<Rightarrow> Stores \<Rightarrow> (thrown + CreateOrderResult) \<times> Stores" where
  "createOrderActivity env orderData st =
     (let order = \<lparr>order_orderId = orderId orderData, order_userId = userId orderData,
                    order_items = items orderData, order_totalAmount = totalAmount orderData,
                    status = created, createdAt = now env, cancelledAt = None\<rparr>
      in (Inr \<lparr>success = True, message = None,
                res_orderId = Some (order_orderId order), res_userId = Some (order_userId order),
                res_items = Some (order_items order),
                res_totalAmount = Some (order_totalAmount order),
                res_status = Some (status order), res_createdAt = Some (createdAt order)\<rparr>,
          st\<lparr>orders := (orders st)(orderId orderData \<mapsto> order)\<rparr>))"

text \<open>
  The loop of \<open>reserveInventoryActivity\<close> (lines 319 to 334): it returns the item at which
  it stopped, if any, and the inventory as the loop left it.
\<close>

fun reserveInventory_loop ::
  "(string \<rightharpoonup> InventoryItem) \<Rightarrow> OrderItem list
    \<Rightarrow> OrderItem option \<times> (string \<rightharpoonup> InventoryItem)" where
  "reserveInventory_loop stock_of [] = (None, stock_of)"
| "reserveInventory_loop stock_of (item # rest) =
     (case stock_of (itemId item) of
        None \<Rightarrow> (Some item, stock_of)
      | Some stock \<Rightarrow>
          if quantity stock < item_quantity item then (Some item, stock_of)
          else reserveInventory_loop
                 (stock_of(itemId item \<mapsto>
                    stock\<lparr>quantity := quantity stock - item_quantity item,
                          reserved := Some ((case reserved stock of None \<Rightarrow> 0 | Some r \<Rightarrow> r)
                                            + item_quantity item)\<rparr>))
                 rest)"

definition reserveInventoryActivity ::
  "string \<Rightarrow> OrderItem list \<Rightarrow> Stores \<Rightarrow> (thrown + ActivityResult) \<times> Stores" where
  "reserveInventoryActivity oid its st =
     (case reserveInventory_loop (inventory st) its of
        (Some item, stock_of) \<Rightarrow>
          (Inr \<lparr>success = False,
                message = Some (''Insufficient inventory for product '' @ itemId item)\<rparr>,
           st\<lparr>inventory := stock_of\<rparr>)
      | (None, stock_of) \<Rightarrow>
          (Inr \<lparr>success = True, message = Some ''Inventory reserved successfully''\<rparr>,
           st\<lparr>inventory := stock_of\<rparr>))"

definition processPaymentActivity ::
  "Env \<Rightarrow> string \<Rightarrow> string \<Rightarrow> real \<Rightarrow> Stores
    \<Rightarrow> (thrown + ProcessPaymentResult) \<times> Stores" where
  "processPaymentActivity env oid uid amt st =
     (if amt > 1000 then
        (Inr \<lparr>success = False, message = Some ''Payment failed: Amount exceeds limit of 1000'',
              paymentId = None, amount = None\<rparr>, st)
      else if random env < 15 then
        (Inl (Error ''Payment API timeout - network connection failed''), st)
      else if random env \<ge> 15 \<and> random env < 25 then
        (Inl (Error ''Payment API server error 500 - Internal server error''), st)
      else if random env \<ge> 25 \<and> random env < 30 then
        (Inr \<lparr>success = False,
              message = Some ''Payment failed: Invalid request format (400 Bad Request)'',
              paymentId = None, amount = None\<rparr>, st)
      else if random env \<ge> 30 \<and> random env < 33 then
        (Inr \<lparr>success = False,
              message = Some ''Payment failed: Invalid API credentials (401 Unauthorized)'',
              paymentId = None, amount = None\<rparr>, st)
      else
        (let pid = ''payment-'' @ date_now env @ ''-'' @ random_suffix env;
             payment = \<lparr>payment_paymentId = pid, payment_orderId = oid,
                         payment_userId = uid, payment_amount = amt,
                         payment_status = completed, processedAt = now env,
                         refundedAt = None\<rparr>
         in (Inr \<lparr>success = True, message = None, paymentId = Some pid, amount = Some amt\<rparr>,
             st\<lparr>payments := (payments st)(pid \<mapsto> payment)\<rparr>)))"

definition sendConfirmationEmailActivity ::
  "string \<Rightarrow> string \<Rightarrow> real \<Rightarrow> Stores \<Rightarrow> (thrown + ActivityResult) \<times> Stores" where
  "sendConfirmationEmailActivity oid uid amt st =
     (Inr \<lparr>success = True, message = Some ''Email sent''\<rparr>, st)"

definition cancelOrderActivity ::
  "Env \<Rightarrow> string \<Rightarrow> Stores \<Rightarrow> (thrown + ActivityResult) \<times> Stores" where
  "cancelOrderActivity env oid st =
     (Inr \<lparr>success = True, message = Some ''Order cancelled''\<rparr>,
      (case orders st oid of
         None \<Rightarrow> st
       | Some order \<Rightarrow>
           st\<lparr>orders := (orders st)(oid \<mapsto>
                order\<lparr>status := cancelled, cancelledAt := Some (now env)\<rparr>)\<rparr>))"

text \<open>The loop of \<open>releaseInventoryActivity\<close> (lines 523 to 529).\<close>

fun releaseInventory_loop ::
  "(string \<rightharpoonup> InventoryItem) \<Rightarrow> OrderItem list \<Rightarrow> (string \<rightharpoonup> InventoryItem)" where
  "releaseInventory_loop stock_of [] = stock_of"
| "releaseInventory_loop stock_of (item # rest) =
     (case stock_of (itemId item) of
        None \<Rightarrow> releaseInventory_loop stock_of rest
      | Some stock \<Rightarrow>
          releaseInventory_loop
            (stock_of(itemId item \<mapsto>
               stock\<lparr>quantity := quantity stock + item_quantity item,
                     reserved := Some (max 0 ((case reserved stock of None \<Rightarrow> 0 | Some r \<Rightarrow> r)
                                              - item_quantity item))\<rparr>))
            rest)"

definition releaseInventoryActivity ::
  "string \<Rightarrow> OrderItem list \<Rightarrow> Stores \<Rightarrow> (thrown + ActivityResult) \<times> Stores" where
  "releaseInventoryActivity oid its st =
     (Inr \<lparr>success = True, message = Some ''Inventory released''\<rparr>,
      st\<lparr>inventory := releaseInventory_loop (inventory st) its\<rparr>)"

definition refundPaymentActivity ::
  "Env \<Rightarrow> string \<Rightarrow> string \<Rightarrow> Stores \<Rightarrow> (thrown + ActivityResult) \<times> Stores" where
  "refundPaymentActivity env oid pid st =
     (Inr \<lparr>success = True, message = Some ''Payment refunded''\<rparr>,
      (case payments st pid of
         None \<Rightarrow> st
       | Some payment \<Rightarrow>
           st\<lparr>payments := (payments st)(pid \<mapsto>
                payment\<lparr>payment_status := refunded, refundedAt := Some (now env)\<rparr>)\<rparr>))"

definition sendCancellationEmailActivity ::
  "string \<Rightarrow> string \<Rightarrow> string \<Rightarrow> Stores \<Rightarrow> (thrown + ActivityResult) \<times> Stores" where
  "sendCancellationEmailActivity oid uid reason st =
     (Inr \<lparr>success = True, message = Some ''Cancellation email sent''\<rparr>, st)"

section \<open>The activities behind the proxy (order-workflow.ts, lines 4 to 22)\<close>

text \<open>
  The worker that runs the activities owns the stores and counts the executions it has
  made; execution number \<open>n\<close> reads \<open>envs n\<close>. The proxy executes an activity again when it
  throws, \<open>maximumAttempts\<close> times in all, and then rejects with the runtime's
  \<open>ActivityFailure\<close>, an \<open>Error\<close> whose message is \<open>Activity task failed\<close> and whose cause is
  the last thrown value. Backoff intervals and the schedule-to-close timeout are time and
  are left out.
\<close>

record Worker =
  stores :: Stores
  executions :: nat

definition execute ::
  "(nat \<Rightarrow> Env) \<Rightarrow> (Env \<Rightarrow> Stores \<Rightarrow> (thrown + 'a) \<times> Stores) \<Rightarrow> (Worker, 'a) promise" where
  "execute envs activity w =
     (case activity (envs (executions w)) (stores w) of
        (r, st) \<Rightarrow> (r, \<lparr>stores = st, executions = Suc (executions w)\<rparr>))"

definition ActivityFailure :: "thrown \<Rightarrow> thrown" where
  "ActivityFailure cause = Error ''Activity task failed''"

fun retry :: "nat \<Rightarrow> (Worker, 'a) promise \<Rightarrow> (Worker, 'a) promise" where
  "retry 0 call w =
     (case call w of
        (Inl e, w') \<Rightarrow> (Inl (ActivityFailure e), w')
      | (Inr r, w') \<Rightarrow> (Inr r, w'))"
| "retry (Suc n) call w =
     (case call w of
        (Inl e, w') \<Rightarrow> retry n call w'
      | (Inr r, w') \<Rightarrow> (Inr r, w'))"

definition maximumAttempts :: nat where
  "maximumAttempts = 3"

definition proxy ::
  "(nat \<Rightarrow> Env) \<Rightarrow> (Env \<Rightarrow> Stores \<Rightarrow> (thrown + 'a) \<times> Stores) \<Rightarrow> (Worker, 'a) promise" where
  "proxy envs activity = retry (maximumAttempts - 1) (execute envs activity)"

text \<open>
  The compensation activities receive \<open>step.data\<close> and take from it the fields they name.
  Iterating over absent \<open>items\<close> throws a \<open>TypeError\<close>; an absent \<open>paymentId\<close> is a key that
  \<open>payments\<close> does not hold.
\<close>

definition proxyActivities :: "(nat \<Rightarrow> Env) \<Rightarrow> Worker Activities" where
  "proxyActivities envs =
     \<lparr>createOrder = (\<lambda>orderData. proxy envs (\<lambda>env. createOrderActivity env orderData)),
      reserveInventory = (\<lambda>oid its. proxy envs (\<lambda>env. reserveInventoryActivity oid its)),
      processPayment =
        (\<lambda>oid uid amt. proxy envs (\<lambda>env. processPaymentActivity env oid uid amt)),
      sendConfirmationEmail =
        (\<lambda>oid uid amt. proxy envs (\<lambda>env. sendConfirmationEmailActivity oid uid amt)),
      cancelOrder = (\<lambda>d. proxy envs (\<lambda>env. cancelOrderActivity env (data_orderId d))),
      releaseInventory =
        (\<lambda>d. proxy envs (\<lambda>env st.
           case data_items d of
             None \<Rightarrow> (Inl (Error ''items is not iterable''), st)
           | Some its \<Rightarrow> releaseInventoryActivity (data_orderId d) its st)),
      refundPayment =
        (\<lambda>d. proxy envs (\<lambda>env st.
           case data_paymentId d of
             None \<Rightarrow> (Inr \<lparr>success = True, message = Some ''Payment refunded''\<rparr>, st)
           | Some pid \<Rightarrow> refundPaymentActivity env (data_orderId d) pid st)),
      sendCancellationEmail =
        (\<lambda>oid uid reason. proxy envs (\<lambda>env. sendCancellationEmailActivity oid uid reason))\<rparr>"

section \<open>Reading a trace\<close>

definition forward_capability :: "Capability \<Rightarrow> bool" where
  "forward_capability c =
     (c = CreateOrder \<or> c = ReserveInventory \<or> c = ProcessPayment \<or> c = SendConfirmationEmail)"

definition compensation_capability :: "Capability \<Rightarrow> bool" where
  "compensation_capability c = (c = CancelOrder \<or> c = ReleaseInventory \<or> c = RefundPayment)"

text \<open>The capability that the \<open>switch\<close> of the \<open>catch\<close> block calls for a step.\<close>

definition capability_of_step :: "CompensationStep \<Rightarrow> Capability" where
  "capability_of_step step =
     (case step_type step of
        refundPaymentStep \<Rightarrow> RefundPayment
      | releaseInventoryStep \<Rightarrow> ReleaseInventory
      | cancelOrderStep \<Rightarrow> CancelOrder)"

text \<open>The Step Catalog of the specification: the compensation paired with a forward step.\<close>

fun compensation_of :: "Capability \<Rightarrow> Capability option" where
  "compensation_of CreateOrder = Some CancelOrder"
| "compensation_of ReserveInventory = Some ReleaseInventory"
| "compensation_of ProcessPayment = Some RefundPayment"
| "compensation_of c = None"

definition stepCatalogOrder :: "Capability list" where
  "stepCatalogOrder = [CreateOrder, ReserveInventory, ProcessPayment, SendConfirmationEmail]"

definition forward_invoked :: "(Capability \<times> Outcome) list \<Rightarrow> Capability list" where
  "forward_invoked tr = filter forward_capability (map fst tr)"

definition executed_compensations :: "(Capability \<times> Outcome) list \<Rightarrow> Capability list" where
  "executed_compensations tr = filter compensation_capability (map fst tr)"

definition succeeded_forward :: "(Capability \<times> Outcome) list \<Rightarrow> Capability list" where
  "succeeded_forward tr =
     map fst (filter (\<lambda>(c, out). forward_capability c \<and> out = ReturnedSuccess) tr)"

text \<open>
  The reverse of the forward steps that returned success, restricted to the steps that
  have a compensation.
\<close>

definition expected_compensations :: "(Capability \<times> Outcome) list \<Rightarrow> Capability list" where
  "expected_compensations tr = rev (List.map_filter compensation_of (succeeded_forward tr))"

section \<open>Concrete runs\<close>

text \<open>
  Capabilities that answer as a script says, for the behaviours that the activities above
  never show. The payment capability adds an identifier to a successful answer.
\<close>

definition ok :: "thrown + ActivityResult" where
  "ok = Inr \<lparr>success = True, message = None\<rparr>"

definition scripted :: "(Capability \<Rightarrow> thrown + ActivityResult) \<Rightarrow> unit Activities" where
  "scripted script =
     \<lparr>createOrder = (\<lambda>orderData w.
        (map_sum id (\<lambda>r. \<lparr>success = success r, message = message r, res_orderId = None,
                           res_userId = None, res_items = None, res_totalAmount = None,
                           res_status = None, res_createdAt = None\<rparr>)
           (script CreateOrder), w)),
      reserveInventory = (\<lambda>oid its w. (script ReserveInventory, w)),
      processPayment = (\<lambda>oid uid amt w.
        (map_sum id (\<lambda>r. \<lparr>success = success r, message = message r,
                           paymentId = (if success r then Some ''payment-1'' else None),
                           amount = (if success r then Some amt else None)\<rparr>)
           (script ProcessPayment), w)),
      sendConfirmationEmail = (\<lambda>oid uid amt w. (script SendConfirmationEmail, w)),
      cancelOrder = (\<lambda>d w. (script CancelOrder, w)),
      releaseInventory = (\<lambda>d w. (script ReleaseInventory, w)),
      refundPayment = (\<lambda>d w. (script RefundPayment, w)),
      sendCancellationEmail = (\<lambda>oid uid reason w. (script SendCancellationEmail, w))\<rparr>"

text \<open>The confirmation email faults after the payment; then two compensations and the
  cancellation email fail as well.\<close>

definition failing_compensations :: "Capability \<Rightarrow> thrown + ActivityResult" where
  "failing_compensations =
     (\<lambda>c. ok)
       (SendConfirmationEmail := Inl (Error ''SMTP connection lost''),
        RefundPayment := Inl (Error ''refund target missing''),
        ReleaseInventory := Inr \<lparr>success = False, message = Some ''release rejected''\<rparr>,
        SendCancellationEmail := Inl NonError)"

text \<open>Order creation and the confirmation email answer with a failure result; every other
  capability succeeds.\<close>

definition unchecked_results_rejected :: "Capability \<Rightarrow> thrown + ActivityResult" where
  "unchecked_results_rejected =
     (\<lambda>c. ok)
       (CreateOrder := Inr \<lparr>success = False, message = Some ''order rejected''\<rparr>,
        SendConfirmationEmail := Inr \<lparr>success = False, message = Some ''mailbox full''\<rparr>)"

text \<open>Order creation throws; every other capability succeeds.\<close>

definition createOrder_faults :: "Capability \<Rightarrow> thrown + ActivityResult" where
  "createOrder_faults = (\<lambda>c. ok)(CreateOrder := Inl (Error ''order service down''))"

text \<open>Every capability throws.\<close>

definition everything_faults :: "Capability \<Rightarrow> thrown + ActivityResult" where
  "everything_faults = (\<lambda>c. Inl (Error ''service unavailable''))"

text \<open>The inventory reservation answers with a failure result.\<close>

definition reservation_rejected :: "Capability \<Rightarrow> thrown + ActivityResult" where
  "reservation_rejected =
     (\<lambda>c. ok)(ReserveInventory := Inr \<lparr>success = False, message = Some ''out of stock''\<rparr>)"

definition envs0 :: "nat \<Rightarrow> Env" where
  "envs0 n = \<lparr>now = ''2024-01-01T00:00:00.000Z'', random = 50,
              date_now = ''1704067200000'', random_suffix = ''k3x9q''\<rparr>"

definition worker0 :: Worker where
  "worker0 = \<lparr>stores = initial_stores, executions = 0\<rparr>"

definition order_o1 :: OrderData where
  "order_o1 =
     \<lparr>orderId = ''o1'', userId = ''user-001'',
      items = [\<lparr>itemId = ''item-2'', item_name = ''Product 2'', item_quantity = 2,
                price = 200\<rparr>],
      totalAmount = 400\<rparr>"

definition order_o2 :: OrderData where
  "order_o2 =
     \<lparr>orderId = ''o2'', userId = ''user-002'',
      items = [\<lparr>itemId = ''item-1'', item_name = ''Product 1'', item_quantity = 2,
                price = 1350\<rparr>],
      totalAmount = 2700\<rparr>"

definition order_o3 :: OrderData where
  "order_o3 =
     \<lparr>orderId = ''o3'', userId = ''user-003'',
      items = [\<lparr>itemId = ''item-1'', item_name = ''Product 1'', item_quantity = 20,
                price = 50\<rparr>],
      totalAmount = 1000\<rparr>"

definition order_o4 :: OrderData where
  "order_o4 =
     \<lparr>orderId = ''o4'', userId = ''user-004'',
      items = [\<lparr>itemId = ''item-2'', item_name = ''Product 2'', item_quantity = 2,
                price = 150\<rparr>,
               \<lparr>itemId = ''item-1'', item_name = ''Product 1'', item_quantity = 20,
                price = 50\<rparr>,
               \<lparr>itemId = ''item-3'', item_name = ''Product 3'', item_quantity = 1,
                price = 300\<rparr>],
      totalAmount = 1600\<rparr>"

definition missing_item :: OrderItem where
  "missing_item =
     \<lparr>itemId = ''item-9'', item_name = ''Product 9'', item_quantity = 4, price = 10\<rparr>"

section \<open>Unfolding a run\<close>

lemmas run_defs =
  orderWorkflow_def forward_def compensation_def compensateStep_def invoke_def push_def
  initial_def outcome_def errorMessageOf_def or_default_def truthy_def Let_def

lemmas proxy_defs =
  proxyActivities_def proxy_def maximumAttempts_def execute_def numeral_2_eq_2

lemmas activity_defs =
  createOrderActivity_def reserveInventoryActivity_def processPaymentActivity_def
  sendConfirmationEmailActivity_def cancelOrderActivity_def releaseInventoryActivity_def
  refundPaymentActivity_def sendCancellationEmailActivity_def

lemmas start_defs = envs0_def worker0_def initial_stores_def initial_inventory_def

lemmas trace_defs =
  forward_invoked_def executed_compensations_def succeeded_forward_def
  expected_compensations_def forward_capability_def
  compensation_capability_def List.map_filter_def

section \<open>The payment activity\<close>

lemma proxy_resolved:
  "activity (envs (executions w)) (stores w) = (Inr r, st)
   \<Longrightarrow> proxy envs activity w = (Inr r, \<lparr>stores = st, executions = Suc (executions w)\<rparr>)"
  by (simp add: proxy_def maximumAttempts_def execute_def numeral_2_eq_2)

text \<open>
  C3. An amount above 1000 makes \<open>processPaymentActivity\<close> return the failure result with the
  message about the limit, whatever the scenario draw and without touching the stores: the
  amount is tested before the bands of the draw that throw. Behind the proxy the call is
  executed once and resolves with that result.
\<close>

theorem processPayment_over_limit_terminal:
  assumes "1000 < amt"
  shows "processPaymentActivity env oid uid amt st =
           (Inr \<lparr>success = False,
                 message = Some ''Payment failed: Amount exceeds limit of 1000'',
                 paymentId = None, amount = None\<rparr>, st)
         \<and> processPayment (proxyActivities envs) oid uid amt w =
           (Inr \<lparr>success = False,
                 message = Some ''Payment failed: Amount exceeds limit of 1000'',
                 paymentId = None, amount = None\<rparr>,
            \<lparr>stores = stores w, executions = Suc (executions w)\<rparr>)"
proof -
  have over: "processPaymentActivity e oid uid amt s =
           (Inr \<lparr>success = False,
                 message = Some ''Payment failed: Amount exceeds limit of 1000'',
                 paymentId = None, amount = None\<rparr>, s)" for e s
    using assms by (simp add: processPaymentActivity_def)
  show ?thesis
    by (simp add: over proxyActivities_def proxy_resolved)
qed

text \<open>At the draw 10, in the band of the network timeout: 2700 is refused, 400 throws.\<close>

theorem processPayment_over_limit_terminal_witness:
  "(1000::real) < 2700
   \<and> processPaymentActivity ((envs0 0)\<lparr>random := 10\<rparr>) ''o2'' ''user-002'' 2700 initial_stores =
       (Inr \<lparr>success = False,
             message = Some ''Payment failed: Amount exceeds limit of 1000'',
             paymentId = None, amount = None\<rparr>, initial_stores)
   \<and> processPaymentActivity ((envs0 0)\<lparr>random := 10\<rparr>) ''o2'' ''user-002'' 400 initial_stores =
       (Inl (Error ''Payment API timeout - network connection failed''), initial_stores)"
proof -
  have over: "(1000::real) < 2700" by simp
  show ?thesis
    using over processPayment_over_limit_terminal
      [OF over, of "(envs0 0)\<lparr>random := 10\<rparr>" "''o2''" "''user-002''" initial_stores]
    by (simp add: processPaymentActivity_def envs0_def)
qed

section \<open>The inventory activities\<close>

lemma reserveInventory_loop_append:
  "reserveInventory_loop m pre = (None, m1)
   \<Longrightarrow> reserveInventory_loop m (pre @ rest) = reserveInventory_loop m1 rest"
  by (induction pre arbitrary: m) (auto split: option.splits if_splits)

text \<open>
  C9. When the items before position \<open>i\<close> can be reserved and the item at position \<open>i\<close>
  lacks stock, \<open>reserveInventoryActivity\<close> returns the failure result and leaves the stores
  exactly as a successful reservation of the items before \<open>i\<close> leaves them: what it deducted
  and reserved for them stays.
\<close>

theorem reserveInventory_keeps_partial_reservation:
  assumes "reserveInventoryActivity oid pre st =
             (Inr \<lparr>success = True, message = Some ''Inventory reserved successfully''\<rparr>, st1)"
    and "case inventory st1 (itemId item) of
           None \<Rightarrow> True | Some stock \<Rightarrow> quantity stock < item_quantity item"
  shows "reserveInventoryActivity oid (pre @ item # post) st =
           (Inr \<lparr>success = False,
                 message = Some (''Insufficient inventory for product '' @ itemId item)\<rparr>, st1)"
proof -
  obtain m1 where loop: "reserveInventory_loop (inventory st) pre = (None, m1)"
    and st1: "st1 = st\<lparr>inventory := m1\<rparr>"
    using assms(1) by (auto simp: reserveInventoryActivity_def split: prod.splits option.splits)
  have "reserveInventory_loop m1 (item # post) = (Some item, m1)"
    using assms(2) st1 by (auto split: option.splits)
  then show ?thesis
    using reserveInventory_loop_append [OF loop, of "item # post"] st1
    by (simp add: reserveInventoryActivity_def)
qed

text \<open>
  Two of item-2 are in stock, twenty of item-1 are not: the call fails and item-2 stays at
  quantity 3 with 2 reserved.
\<close>

theorem reserveInventory_keeps_partial_reservation_witness:
  "reserveInventoryActivity ''o4'' (items order_o4) initial_stores =
     (Inr \<lparr>success = False, message = Some ''Insufficient inventory for product item-1''\<rparr>,
      initial_stores\<lparr>inventory := initial_inventory(''item-2'' \<mapsto>
         \<lparr>name = ''Product 2'', quantity = 3, reserved = Some 2\<rparr>)\<rparr>)
   \<and> inventory initial_stores ''item-2''
       = Some \<lparr>name = ''Product 2'', quantity = 5, reserved = None\<rparr>"
proof -
  let ?st1 = "initial_stores\<lparr>inventory := initial_inventory(''item-2'' \<mapsto>
         \<lparr>name = ''Product 2'', quantity = 3, reserved = Some 2\<rparr>)\<rparr>"
  have prefix_ok: "reserveInventoryActivity ''o4'' [hd (items order_o4)] initial_stores =
      (Inr \<lparr>success = True, message = Some ''Inventory reserved successfully''\<rparr>, ?st1)"
    by (simp add: reserveInventoryActivity_def order_o4_def initial_stores_def
        initial_inventory_def)
  have short: "case inventory ?st1 (itemId (items order_o4 ! 1)) of
      None \<Rightarrow> True | Some stock \<Rightarrow> quantity stock < item_quantity (items order_o4 ! 1)"
    by (simp add: order_o4_def initial_stores_def initial_inventory_def)
  have split_items: "items order_o4 =
      [hd (items order_o4)] @ (items order_o4 ! 1) # [items order_o4 ! 2]"
    by (simp add: order_o4_def)
  have "reserveInventoryActivity ''o4'' (items order_o4) initial_stores =
     (Inr \<lparr>success = False,
           message = Some (''Insufficient inventory for product '' @ itemId (items order_o4 ! 1))\<rparr>,
      ?st1)"
    using reserveInventory_keeps_partial_reservation [OF prefix_ok short, of "[items order_o4 ! 2]"]
      split_items by simp
  then show ?thesis
    by (simp add: order_o4_def initial_stores_def initial_inventory_def)
qed

section \<open>The compensation activities\<close>

lemma releaseInventory_loop_absent:
  "m k = None \<Longrightarrow> releaseInventory_loop m its k = None"
proof (induction its arbitrary: m)
  case Nil
  then show ?case by simp
next
  case (Cons item rest)
  show ?case
  proof (cases "m (itemId item)")
    case None
    then show ?thesis using Cons by simp
  next
    case (Some stock)
    then have "itemId item \<noteq> k" using Cons.prems by auto
    then show ?thesis using Some Cons by simp
  qed
qed

lemma releaseInventory_loop_all_absent:
  "\<forall>item \<in> set its. m (itemId item) = None \<Longrightarrow> releaseInventory_loop m its = m"
  by (induction its arbitrary: m) auto

text \<open>
  C10. \<open>cancelOrderActivity\<close>, \<open>releaseInventoryActivity\<close> and \<open>refundPaymentActivity\<close> resolve
  with \<open>success = True\<close> on every input and every state of the stores. An order or a payment
  that is not in its store leaves the stores as they were; an item that is not in the
  inventory is passed over and stays absent, and when every item is absent the stores are
  as they were.
\<close>

theorem compensation_activities_always_succeed:
  "fst (cancelOrderActivity env oid st) = Inr \<lparr>success = True, message = Some ''Order cancelled''\<rparr>
   \<and> (orders st oid = None \<longrightarrow> snd (cancelOrderActivity env oid st) = st)
   \<and> fst (releaseInventoryActivity oid' its st)
       = Inr \<lparr>success = True, message = Some ''Inventory released''\<rparr>
   \<and> (\<forall>k. inventory st k = None \<longrightarrow>
          inventory (snd (releaseInventoryActivity oid' its st)) k = None)
   \<and> ((\<forall>item \<in> set its. inventory st (itemId item) = None) \<longrightarrow>
          snd (releaseInventoryActivity oid' its st) = st)
   \<and> fst (refundPaymentActivity env oid' pid st)
       = Inr \<lparr>success = True, message = Some ''Payment refunded''\<rparr>
   \<and> (payments st pid = None \<longrightarrow> snd (refundPaymentActivity env oid' pid st) = st)"
  by (simp add: cancelOrderActivity_def releaseInventoryActivity_def refundPaymentActivity_def
      releaseInventory_loop_absent releaseInventory_loop_all_absent)

text \<open>An order, an item and a payment that the initial stores do not hold.\<close>

theorem compensation_activities_always_succeed_witness:
  "orders initial_stores ''no-such-order'' = None
   \<and> cancelOrderActivity (envs0 0) ''no-such-order'' initial_stores
       = (Inr \<lparr>success = True, message = Some ''Order cancelled''\<rparr>, initial_stores)
   \<and> inventory initial_stores (itemId missing_item) = None
   \<and> releaseInventoryActivity ''o9'' [missing_item] initial_stores
       = (Inr \<lparr>success = True, message = Some ''Inventory released''\<rparr>, initial_stores)
   \<and> payments initial_stores ''no-such-payment'' = None
   \<and> refundPaymentActivity (envs0 0) ''o9'' ''no-such-payment'' initial_stores
       = (Inr \<lparr>success = True, message = Some ''Payment refunded''\<rparr>, initial_stores)"
proof -
  have a: "orders initial_stores ''no-such-order'' = None"
    and b: "\<forall>item \<in> set [missing_item]. inventory initial_stores (itemId item) = None"
    and c: "payments initial_stores ''no-such-payment'' = None"
    by (simp_all add: initial_stores_def initial_inventory_def missing_item_def)
  show ?thesis
    using a b b [simplified] c
      compensation_activities_always_succeed
        [where env = "envs0 0" and oid = "''no-such-order''" and st = initial_stores
           and oid' = "''o9''" and its = "[missing_item]" and pid = "''no-such-payment''"]
    by (metis prod.collapse)
qed

section \<open>The shape of a run\<close>

lemma invoke_trace:
  "invoke c call s = (r, s') \<Longrightarrow>
     trace s' = trace s @ [(c, outcome r)] \<and> compensationSteps s' = compensationSteps s"
  by (auto simp: invoke_def split: prod.splits)

lemma compensateStep_trace:
  "compensateStep acts step s = (r, s') \<Longrightarrow>
     trace s' = trace s @ [(capability_of_step step, outcome r)]
     \<and> compensationSteps s' = compensationSteps s"
  by (cases "step_type step")
     (auto simp: compensateStep_def capability_of_step_def dest: invoke_trace)

lemma compensate_trace:
  "\<exists>outs. length outs = length steps
     \<and> trace (compensate acts steps s) = trace s @ zip (map capability_of_step steps) outs
     \<and> compensationSteps (compensate acts steps s) = compensationSteps s"
proof (induction steps arbitrary: s)
  case Nil
  then show ?case by simp
next
  case (Cons step steps)
  obtain r s' where step: "compensateStep acts step s = (r, s')"
    by (cases "compensateStep acts step s")
  have next_state: "compensate acts (step # steps) s = compensate acts steps s'"
    using step by (cases r) simp_all
  from Cons.IH [of s'] obtain outs where outs: "length outs = length steps"
    "trace (compensate acts steps s') = trace s' @ zip (map capability_of_step steps) outs"
    "compensationSteps (compensate acts steps s') = compensationSteps s'"
    by blast
  show ?case
    using compensateStep_trace [OF step] outs next_state
    by (intro exI [of _ "outcome r # outs"]) simp
qed

lemma compensation_trace:
  "\<exists>r s' outs out. compensation acts od err s = (Inr r, s')
     \<and> r = \<lparr>wf_success = False, wf_orderId = orderId od,
             wf_message = ''Order cancelled and refunded'', wf_paymentId = None,
             error = Some (errorMessageOf err)\<rparr>
     \<and> length outs = length (compensationSteps s)
     \<and> trace s' = trace s @ zip (map capability_of_step (rev (compensationSteps s))) outs
                   @ [(SendCancellationEmail, out)]
     \<and> compensationSteps s' = compensationSteps s"
proof -
  let ?s1 = "compensate acts (rev (compensationSteps s)) s"
  obtain outs where outs: "length outs = length (rev (compensationSteps s))"
    "trace ?s1 = trace s @ zip (map capability_of_step (rev (compensationSteps s))) outs"
    "compensationSteps ?s1 = compensationSteps s"
    using compensate_trace [of "rev (compensationSteps s)" acts s] by blast
  obtain r s2 where email: "invoke SendCancellationEmail
      (sendCancellationEmail acts (orderId od) (userId od) (errorMessageOf err)) ?s1 = (r, s2)"
    by (cases "invoke SendCancellationEmail
      (sendCancellationEmail acts (orderId od) (userId od) (errorMessageOf err)) ?s1")
  have "compensation acts od err s =
          (Inr \<lparr>wf_success = False, wf_orderId = orderId od,
             wf_message = ''Order cancelled and refunded'', wf_paymentId = None,
             error = Some (errorMessageOf err)\<rparr>, s2)"
    using email by (cases r) (simp_all add: compensation_def Let_def)
  then show ?thesis
    using invoke_trace [OF email] outs by auto
qed

text \<open>
  The ways the \<open>try\<close> block can end, with the trace and the compensation steps at that point.
\<close>

lemma forward_cases:
  assumes "forward acts od (initial w) = (r, s)"
  obtains
    (create_fault) e where "r = Inl e" "trace s = [(CreateOrder, RaisedFault)]"
      "map capability_of_step (compensationSteps s) = []"
  | (reserve_fault) e o1 where "r = Inl e" "o1 \<noteq> RaisedFault"
      "o1 = outcome (fst (createOrder acts od w))"
      "trace s = [(CreateOrder, o1), (ReserveInventory, RaisedFault)]"
      "map capability_of_step (compensationSteps s) = [CancelOrder]"
  | (reserve_failed) o1 where "r = Inl (Error ''Insufficient inventory'')" "o1 \<noteq> RaisedFault"
      "o1 = outcome (fst (createOrder acts od w))"
      "trace s = [(CreateOrder, o1), (ReserveInventory, ReturnedFailure)]"
      "map capability_of_step (compensationSteps s) = [CancelOrder, ReleaseInventory]"
  | (payment_fault) e o1 where "r = Inl e" "o1 \<noteq> RaisedFault"
      "o1 = outcome (fst (createOrder acts od w))"
      "trace s = [(CreateOrder, o1), (ReserveInventory, ReturnedSuccess),
                  (ProcessPayment, RaisedFault)]"
      "map capability_of_step (compensationSteps s) = [CancelOrder, ReleaseInventory]"
  | (payment_failed) m o1 where "r = Inl (Error (''Payment failed: '' @ m))" "o1 \<noteq> RaisedFault"
      "o1 = outcome (fst (createOrder acts od w))"
      "trace s = [(CreateOrder, o1), (ReserveInventory, ReturnedSuccess),
                  (ProcessPayment, ReturnedFailure)]"
      "map capability_of_step (compensationSteps s) = [CancelOrder, ReleaseInventory]"
  | (email_fault) e o1 w' where "r = Inl e" "o1 \<noteq> RaisedFault"
      "o1 = outcome (fst (createOrder acts od w))"
      "fst (sendConfirmationEmail acts (orderId od) (userId od) (totalAmount od) w') = Inl e"
      "trace s = [(CreateOrder, o1), (ReserveInventory, ReturnedSuccess),
                  (ProcessPayment, ReturnedSuccess), (SendConfirmationEmail, RaisedFault)]"
      "map capability_of_step (compensationSteps s) = [CancelOrder, ReleaseInventory]
       \<or> map capability_of_step (compensationSteps s)
           = [CancelOrder, ReleaseInventory, RefundPayment]"
  | (completed) paymentResult o1 o4 where
      "r = Inr \<lparr>wf_success = True, wf_orderId = orderId od,
                wf_message = ''Order processed successfully'',
                wf_paymentId = paymentId paymentResult, error = None\<rparr>"
      "fst (processPayment acts (orderId od) (userId od) (totalAmount od)
             (snd (reserveInventory acts (orderId od) (items od)
                    (snd (createOrder acts od w))))) = Inr paymentResult"
      "success paymentResult"
      "o1 \<noteq> RaisedFault" "o4 \<noteq> RaisedFault"
      "o1 = outcome (fst (createOrder acts od w))"
      "trace s = [(CreateOrder, o1), (ReserveInventory, ReturnedSuccess),
                  (ProcessPayment, ReturnedSuccess), (SendConfirmationEmail, o4)]"
proof -
  note defs = forward_def invoke_def push_def initial_def Let_def outcome_def
    capability_of_step_def
  obtain r1 w1 where c1: "createOrder acts od w = (r1, w1)"
    by (cases "createOrder acts od w")
  show ?thesis
  proof (cases r1)
    case (Inl e)
    with c1 assms show ?thesis
      by (intro create_fault [of e]) (auto simp: defs)
  next
    case v1: (Inr v1)
    obtain r2 w2 where c2: "reserveInventory acts (orderId od) (items od) w1 = (r2, w2)"
      by (cases "reserveInventory acts (orderId od) (items od) w1")
    show ?thesis
    proof (cases r2)
      case (Inl e)
      with c1 v1 c2 assms show ?thesis
        by (intro reserve_fault [of e "outcome (fst (createOrder acts od w))"])
           (auto simp: defs)
    next
      case v2: (Inr v2)
      show ?thesis
      proof (cases "success v2")
        case False
        with c1 v1 c2 v2 assms show ?thesis
          by (intro reserve_failed [of "outcome (fst (createOrder acts od w))"])
             (auto simp: defs)
      next
        case s2: True
        obtain r3 w3 where c3:
          "processPayment acts (orderId od) (userId od) (totalAmount od) w2 = (r3, w3)"
          by (cases "processPayment acts (orderId od) (userId od) (totalAmount od) w2")
        show ?thesis
        proof (cases r3)
          case (Inl e)
          with c1 v1 c2 v2 s2 c3 assms show ?thesis
            by (intro payment_fault [of e "outcome (fst (createOrder acts od w))"])
               (auto simp: defs)
        next
          case v3: (Inr v3)
          show ?thesis
          proof (cases "success v3")
            case False
            with c1 v1 c2 v2 s2 c3 v3 assms show ?thesis
              by (intro payment_failed [of "or_default (message v3) ''Unknown error''"
                    "outcome (fst (createOrder acts od w))"])
                 (auto simp: defs)
          next
            case s3: True
            obtain r4 w4 where c4:
              "sendConfirmationEmail acts (orderId od) (userId od) (totalAmount od) w3 = (r4, w4)"
              by (cases "sendConfirmationEmail acts (orderId od) (userId od) (totalAmount od) w3")
            show ?thesis
            proof (cases r4)
              case (Inl e)
              with c1 v1 c2 v2 s2 c3 v3 s3 c4 assms show ?thesis
                by (intro email_fault [of e "outcome (fst (createOrder acts od w))" w3];
                    cases "truthy (paymentId v3)")
                   (auto simp: defs)
            next
              case v4: (Inr v4)
              with c1 v1 c2 v2 s2 c3 v3 s3 c4 assms show ?thesis
                by (intro completed [of v3 "outcome (fst (createOrder acts od w))"
                      "outcome (Inr v4 :: thrown + ActivityResult)"];
                    cases "truthy (paymentId v3)")
                   (auto simp: defs)
            qed
          qed
        qed
      qed
    qed
  qed
qed

text \<open>The ways the whole workflow can end.\<close>

lemma orderWorkflow_cases:
  assumes "orderWorkflow acts od w = (res, s)"
  obtains
    (create_fault) e c4 where
      "res = Inr \<lparr>wf_success = False, wf_orderId = orderId od,
                  wf_message = ''Order cancelled and refunded'', wf_paymentId = None,
                  error = Some (errorMessageOf e)\<rparr>"
      "trace s = [(CreateOrder, RaisedFault), (SendCancellationEmail, c4)]"
  | (reserve_fault) e o1 c3 c4 where
      "res = Inr \<lparr>wf_success = False, wf_orderId = orderId od,
                  wf_message = ''Order cancelled and refunded'', wf_paymentId = None,
                  error = Some (errorMessageOf e)\<rparr>"
      "o1 \<noteq> RaisedFault" "o1 = outcome (fst (createOrder acts od w))"
      "trace s = [(CreateOrder, o1), (ReserveInventory, RaisedFault),
                  (CancelOrder, c3), (SendCancellationEmail, c4)]"
  | (reserve_failed) o1 c2 c3 c4 where
      "res = Inr \<lparr>wf_success = False, wf_orderId = orderId od,
                  wf_message = ''Order cancelled and refunded'', wf_paymentId = None,
                  error = Some ''Insufficient inventory''\<rparr>"
      "o1 \<noteq> RaisedFault" "o1 = outcome (fst (createOrder acts od w))"
      "trace s = [(CreateOrder, o1), (ReserveInventory, ReturnedFailure),
                  (ReleaseInventory, c2), (CancelOrder, c3), (SendCancellationEmail, c4)]"
  | (payment_fault) e o1 c2 c3 c4 where
      "res = Inr \<lparr>wf_success = False, wf_orderId = orderId od,
                  wf_message = ''Order cancelled and refunded'', wf_paymentId = None,
                  error = Some (errorMessageOf e)\<rparr>"
      "o1 \<noteq> RaisedFault" "o1 = outcome (fst (createOrder acts od w))"
      "trace s = [(CreateOrder, o1), (ReserveInventory, ReturnedSuccess),
                  (ProcessPayment, RaisedFault),
                  (ReleaseInventory, c2), (CancelOrder, c3), (SendCancellationEmail, c4)]"
  | (payment_failed) m o1 c2 c3 c4 where
      "res = Inr \<lparr>wf_success = False, wf_orderId = orderId od,
                  wf_message = ''Order cancelled and refunded'', wf_paymentId = None,
                  error = Some (''Payment failed: '' @ m)\<rparr>"
      "o1 \<noteq> RaisedFault" "o1 = outcome (fst (createOrder acts od w))"
      "trace s = [(CreateOrder, o1), (ReserveInventory, ReturnedSuccess),
                  (ProcessPayment, ReturnedFailure),
                  (ReleaseInventory, c2), (CancelOrder, c3), (SendCancellationEmail, c4)]"
  | (email_fault_no_refund) e o1 w' c2 c3 c4 where
      "fst (sendConfirmationEmail acts (orderId od) (userId od) (totalAmount od) w') = Inl e"
      "res = Inr \<lparr>wf_success = False, wf_orderId = orderId od,
                  wf_message = ''Order cancelled and refunded'', wf_paymentId = None,
                  error = Some (errorMessageOf e)\<rparr>"
      "o1 \<noteq> RaisedFault" "o1 = outcome (fst (createOrder acts od w))"
      "trace s = [(CreateOrder, o1), (ReserveInventory, ReturnedSuccess),
                  (ProcessPayment, ReturnedSuccess), (SendConfirmationEmail, RaisedFault),
                  (ReleaseInventory, c2), (CancelOrder, c3), (SendCancellationEmail, c4)]"
  | (email_fault) e o1 w' c1 c2 c3 c4 where
      "fst (sendConfirmationEmail acts (orderId od) (userId od) (totalAmount od) w') = Inl e"
      "res = Inr \<lparr>wf_success = False, wf_orderId = orderId od,
                  wf_message = ''Order cancelled and refunded'', wf_paymentId = None,
                  error = Some (errorMessageOf e)\<rparr>"
      "o1 \<noteq> RaisedFault" "o1 = outcome (fst (createOrder acts od w))"
      "trace s = [(CreateOrder, o1), (ReserveInventory, ReturnedSuccess),
                  (ProcessPayment, ReturnedSuccess), (SendConfirmationEmail, RaisedFault),
                  (RefundPayment, c1), (ReleaseInventory, c2), (CancelOrder, c3),
                  (SendCancellationEmail, c4)]"
  | (completed) paymentResult o1 o4 where
      "res = Inr \<lparr>wf_success = True, wf_orderId = orderId od,
                  wf_message = ''Order processed successfully'',
                  wf_paymentId = paymentId paymentResult, error = None\<rparr>"
      "fst (processPayment acts (orderId od) (userId od) (totalAmount od)
             (snd (reserveInventory acts (orderId od) (items od)
                    (snd (createOrder acts od w))))) = Inr paymentResult"
      "success paymentResult"
      "o1 \<noteq> RaisedFault" "o4 \<noteq> RaisedFault"
      "o1 = outcome (fst (createOrder acts od w))"
      "trace s = [(CreateOrder, o1), (ReserveInventory, ReturnedSuccess),
                  (ProcessPayment, ReturnedSuccess), (SendConfirmationEmail, o4)]"
proof -
  obtain r s1 where fw: "forward acts od (initial w) = (r, s1)"
    by (cases "forward acts od (initial w)")
  have comp: "\<exists>outs out. res = Inr \<lparr>wf_success = False, wf_orderId = orderId od,
             wf_message = ''Order cancelled and refunded'', wf_paymentId = None,
             error = Some (errorMessageOf e)\<rparr>
     \<and> length outs = length (map capability_of_step (compensationSteps s1))
     \<and> trace s = trace s1 @ zip (rev (map capability_of_step (compensationSteps s1))) outs
                   @ [(SendCancellationEmail, out)]" if "r = Inl e" for e
    using compensation_trace [of acts od e s1] assms fw that
    by (auto simp: orderWorkflow_def rev_map)
  from fw show ?thesis
  proof (cases rule: forward_cases)
    case (create_fault e)
    then show ?thesis using comp [of e] that(1) by auto
  next
    case (reserve_fault e o1)
    then show ?thesis using comp [of e] that(2) [of e o1] by (auto simp: length_Suc_conv)
  next
    case (reserve_failed o1)
    then show ?thesis
      using comp [of "Error ''Insufficient inventory''"] that(3) [of o1]
      by (auto simp: errorMessageOf_def length_Suc_conv)
  next
    case (payment_fault e o1)
    then show ?thesis
      using comp [of e] that(4) [of e o1] by (auto simp: length_Suc_conv)
  next
    case (payment_failed m o1)
    then show ?thesis
      using comp [of "Error (''Payment failed: '' @ m)"] that(5) [of m o1]
      by (auto simp: errorMessageOf_def length_Suc_conv)
  next
    case (email_fault e o1 w')
    then show ?thesis
      using comp [of e] that(6) [of w' e o1] that(7) [of w' e o1]
      by (auto simp: length_Suc_conv)
  next
    case (completed paymentResult o1 o4)
    then show ?thesis
      using assms fw that(8) [of paymentResult o1 o4] by (auto simp: orderWorkflow_def)
  qed
qed

lemma post_of_split:
  assumes "tr = pre @ (c, out) # post" and "distinct (map fst tr)"
  shows "post = tl (dropWhile (\<lambda>e. fst e \<noteq> c) tr)"
proof -
  have "\<forall>e \<in> set pre. fst e \<noteq> c"
    using assms by force
  then have "dropWhile (\<lambda>e. fst e \<noteq> c) (pre @ (c, out) # post) = (c, out) # post"
    by (simp add: dropWhile_append2)
  then show ?thesis using assms(1) by simp
qed

section \<open>Order of the forward steps and of the compensations\<close>

text \<open>The forward capabilities are invoked in the order of the Step Catalog, each at most once.\<close>

lemma forward_steps_follow_catalog:
  "forward_invoked (trace (snd (orderWorkflow acts od w))) =
     take (length (forward_invoked (trace (snd (orderWorkflow acts od w))))) stepCatalogOrder"
proof -
  obtain res s where run: "orderWorkflow acts od w = (res, s)"
    by (cases "orderWorkflow acts od w")
  from run show ?thesis
    by (cases rule: orderWorkflow_cases)
       (simp_all add: run forward_invoked_def forward_capability_def stepCatalogOrder_def)
qed

text \<open>
  Whenever the reservation returns a failure result, the inventory is released all the
  same, whatever the capabilities do.
\<close>

lemma failed_reservation_is_released:
  assumes "(ReserveInventory, ReturnedFailure) \<in> set (trace (snd (orderWorkflow acts od w)))"
  shows "executed_compensations (trace (snd (orderWorkflow acts od w)))
           = [ReleaseInventory, CancelOrder]"
proof -
  obtain res s where run: "orderWorkflow acts od w = (res, s)"
    by (cases "orderWorkflow acts od w")
  from run show ?thesis
    using assms
    by (cases rule: orderWorkflow_cases)
       (simp_all add: run executed_compensations_def compensation_capability_def)
qed

text \<open>
  With the activities of the repository behind the proxy, a run that ends in compensation
  executes exactly the reverse of the forward steps that returned success, unless the
  reservation returned a failure result.
\<close>

lemma compensations_reverse_successes_unless_reservation_failed:
  assumes "orderWorkflow (proxyActivities envs) od w = (Inr r, s)" and "\<not> wf_success r"
    and "(ReserveInventory, ReturnedFailure) \<notin> set (trace s)"
  shows "executed_compensations (trace s) = expected_compensations (trace s)"
proof -
  have created: "outcome (fst (createOrder (proxyActivities envs) od w)) = ReturnedSuccess"
    by (simp add: proxy_defs createOrderActivity_def outcome_def)
  have email: "fst (sendConfirmationEmail (proxyActivities envs) a b c w') \<noteq> Inl e"
    for a b c w' e
    by (simp add: proxy_defs sendConfirmationEmailActivity_def)
  note props = executed_compensations_def expected_compensations_def succeeded_forward_def
    compensation_capability_def forward_capability_def List.map_filter_def
  from assms(1) show ?thesis
    using assms(2,3) created email
    by (cases rule: orderWorkflow_cases) (simp_all add: props)
qed

text \<open>
  C1. The compensation entry of a forward step is meant to enter \<open>compensationSteps\<close> only
  after that step returned success. The workflow pushes the \<open>releaseInventory\<close> entry
  before it tests \<open>inventoryResult.success\<close>: for an order of twenty of item-1, of which ten
  are in stock, the reservation returns a failure result, the entry is among the
  compensation steps, \<open>ReleaseInventory\<close> runs before \<open>CancelOrder\<close>, and the stock of item-1
  ends at thirty.
\<close>

theorem failed_reservation_keeps_release_entry:
  "fst (orderWorkflow (proxyActivities envs0) order_o3 worker0) =
     Inr \<lparr>wf_success = False, wf_orderId = ''o3'',
          wf_message = ''Order cancelled and refunded'', wf_paymentId = None,
          error = Some ''Insufficient inventory''\<rparr>
   \<and> trace (snd (orderWorkflow (proxyActivities envs0) order_o3 worker0)) =
       [(CreateOrder, ReturnedSuccess), (ReserveInventory, ReturnedFailure),
        (ReleaseInventory, ReturnedSuccess), (CancelOrder, ReturnedSuccess),
        (SendCancellationEmail, ReturnedSuccess)]
   \<and> map step_type
         (compensationSteps (snd (orderWorkflow (proxyActivities envs0) order_o3 worker0)))
       = [cancelOrderStep, releaseInventoryStep]
   \<and> inventory (stores (world (snd (orderWorkflow (proxyActivities envs0) order_o3 worker0))))
         ''item-1''
       = Some \<lparr>name = ''Product 1'', quantity = 30, reserved = Some 0\<rparr>
   \<and> inventory (stores worker0) ''item-1''
       = Some \<lparr>name = ''Product 1'', quantity = 10, reserved = None\<rparr>"
  by (simp add: run_defs proxy_defs activity_defs start_defs order_o3_def)

text \<open>
  C2. The compensations executed are meant to be the reverse of the forward steps that
  returned success and have a compensation. For the order of two of item-2, twenty of
  item-1 and one of item-3, only \<open>CreateOrder\<close> returns success, so only \<open>CancelOrder\<close> is
  expected; the run executes \<open>ReleaseInventory\<close> and then \<open>CancelOrder\<close>.
\<close>

theorem failed_reservation_breaks_reverse_order:
  "executed_compensations (trace (snd (orderWorkflow (proxyActivities envs0) order_o4 worker0)))
     = [ReleaseInventory, CancelOrder]
   \<and> succeeded_forward (trace (snd (orderWorkflow (proxyActivities envs0) order_o4 worker0)))
     = [CreateOrder]
   \<and> expected_compensations (trace (snd (orderWorkflow (proxyActivities envs0) order_o4 worker0)))
     = [CancelOrder]
   \<and> forward_invoked (trace (snd (orderWorkflow (proxyActivities envs0) order_o4 worker0)))
     = [CreateOrder, ReserveInventory]"
  by (simp add: run_defs proxy_defs activity_defs start_defs order_o4_def trace_defs)

section \<open>Failures during compensation\<close>

text \<open>
  C4. When the \<open>try\<close> block ends by a throw, the workflow returns the compensated result
  whose \<open>error\<close> is the message of that throw. After the trace of the \<open>try\<close> block, the
  capabilities invoked are the compensations of all the recorded steps, last recorded
  first, and then the cancellation email. Nothing here depends on what the compensation
  calls return or throw.
\<close>

theorem compensation_failures_do_not_stop_unwind:
  assumes "forward acts od (initial w) = (Inl e, s)"
  shows "fst (orderWorkflow acts od w) =
           Inr \<lparr>wf_success = False, wf_orderId = orderId od,
                wf_message = ''Order cancelled and refunded'', wf_paymentId = None,
                error = Some (errorMessageOf e)\<rparr>
         \<and> take (length (trace s)) (trace (snd (orderWorkflow acts od w))) = trace s
         \<and> map fst (drop (length (trace s)) (trace (snd (orderWorkflow acts od w)))) =
             map capability_of_step (rev (compensationSteps s)) @ [SendCancellationEmail]"
proof -
  have "orderWorkflow acts od w = compensation acts od e s"
    using assms by (simp add: orderWorkflow_def)
  then show ?thesis
    using compensation_trace [of acts od e s] by auto
qed

text \<open>
  After a fault of the confirmation email, the refund throws, the release returns a failure
  result and the cancellation email throws: all four calls are made and the error is the
  one of the confirmation email.
\<close>

theorem compensation_failures_do_not_stop_unwind_witness:
  "fst (forward (scripted failing_compensations) order_o1 (initial ()))
     = Inl (Error ''SMTP connection lost'')
   \<and> fst (orderWorkflow (scripted failing_compensations) order_o1 ()) =
       Inr \<lparr>wf_success = False, wf_orderId = ''o1'',
            wf_message = ''Order cancelled and refunded'', wf_paymentId = None,
            error = Some ''SMTP connection lost''\<rparr>
   \<and> trace (snd (orderWorkflow (scripted failing_compensations) order_o1 ())) =
       [(CreateOrder, ReturnedSuccess), (ReserveInventory, ReturnedSuccess),
        (ProcessPayment, ReturnedSuccess), (SendConfirmationEmail, RaisedFault),
        (RefundPayment, RaisedFault), (ReleaseInventory, ReturnedFailure),
        (CancelOrder, ReturnedSuccess), (SendCancellationEmail, RaisedFault)]"
proof -
  let ?s = "snd (forward (scripted failing_compensations) order_o1 (initial ()))"
  have thrown: "forward (scripted failing_compensations) order_o1 (initial ())
      = (Inl (Error ''SMTP connection lost''), ?s)"
    by (simp add: run_defs scripted_def failing_compensations_def ok_def order_o1_def)
  have before: "trace ?s =
      [(CreateOrder, ReturnedSuccess), (ReserveInventory, ReturnedSuccess),
       (ProcessPayment, ReturnedSuccess), (SendConfirmationEmail, RaisedFault)]"
    by (simp add: run_defs scripted_def failing_compensations_def ok_def order_o1_def)
  have after: "drop (length (trace ?s))
        (trace (snd (orderWorkflow (scripted failing_compensations) order_o1 ()))) =
      [(RefundPayment, RaisedFault), (ReleaseInventory, ReturnedFailure),
       (CancelOrder, ReturnedSuccess), (SendCancellationEmail, RaisedFault)]"
    by (simp add: run_defs scripted_def failing_compensations_def ok_def order_o1_def)
  from compensation_failures_do_not_stop_unwind [OF thrown]
  have "fst (orderWorkflow (scripted failing_compensations) order_o1 ()) =
       Inr \<lparr>wf_success = False, wf_orderId = ''o1'',
            wf_message = ''Order cancelled and refunded'', wf_paymentId = None,
            error = Some ''SMTP connection lost''\<rparr>"
    and "take (length (trace ?s))
        (trace (snd (orderWorkflow (scripted failing_compensations) order_o1 ()))) = trace ?s"
    by (simp_all add: errorMessageOf_def order_o1_def)
  then show ?thesis
    using thrown before after
      append_take_drop_id [of "length (trace ?s)"
        "trace (snd (orderWorkflow (scripted failing_compensations) order_o1 ()))"]
    by (metis append.simps(1,2) fst_conv)
qed

section \<open>Scenario B\<close>

text \<open>
  On the activities of the repository, every order above the limit whose items can be
  reserved ends the same way, whatever the draws and the state of the worker.
\<close>

lemma over_limit_run:
  assumes "1000 < totalAmount od"
    and "fst (reserveInventory_loop (inventory (stores w)) (items od)) = None"
  shows "fst (orderWorkflow (proxyActivities envs) od w) =
           Inr \<lparr>wf_success = False, wf_orderId = orderId od,
                wf_message = ''Order cancelled and refunded'', wf_paymentId = None,
                error = Some ''Payment failed: Payment failed: Amount exceeds limit of 1000''\<rparr>
         \<and> trace (snd (orderWorkflow (proxyActivities envs) od w)) =
             [(CreateOrder, ReturnedSuccess), (ReserveInventory, ReturnedSuccess),
              (ProcessPayment, ReturnedFailure), (ReleaseInventory, ReturnedSuccess),
              (CancelOrder, ReturnedSuccess), (SendCancellationEmail, ReturnedSuccess)]"
proof -
  obtain m1 where loop: "reserveInventory_loop (inventory (stores w)) (items od) = (None, m1)"
    using assms(2) by (cases "reserveInventory_loop (inventory (stores w)) (items od)") simp
  show ?thesis
    using assms(1) loop by (simp add: run_defs proxy_defs activity_defs)
qed

text \<open>
  C5. For order \<open>o2\<close> with total 2700 the outcome is meant to carry the error
  \<open>Payment failed: Amount exceeds limit of 1000\<close>. The run goes as the claim says: the items
  are reserved, the payment is refused on the limit with exactly that message, no refund is
  made, \<open>ReleaseInventory\<close> and then \<open>CancelOrder\<close> run. But the workflow wraps the message of
  a refused payment as \<open>Payment failed: <reason>\<close>, and the reason it is given already starts
  with these words: the \<open>error\<close> of the outcome carries them twice.
\<close>

theorem scenario_B_error_repeats_prefix:
  "fst (processPaymentActivity (envs0 2) ''o2'' ''user-002'' 2700 initial_stores) =
     Inr \<lparr>success = False, message = Some ''Payment failed: Amount exceeds limit of 1000'',
          paymentId = None, amount = None\<rparr>
   \<and> fst (orderWorkflow (proxyActivities envs0) order_o2 worker0) =
       Inr \<lparr>wf_success = False, wf_orderId = ''o2'',
            wf_message = ''Order cancelled and refunded'', wf_paymentId = None,
            error = Some ''Payment failed: Payment failed: Amount exceeds limit of 1000''\<rparr>
   \<and> trace (snd (orderWorkflow (proxyActivities envs0) order_o2 worker0)) =
       [(CreateOrder, ReturnedSuccess), (ReserveInventory, ReturnedSuccess),
        (ProcessPayment, ReturnedFailure), (ReleaseInventory, ReturnedSuccess),
        (CancelOrder, ReturnedSuccess), (SendCancellationEmail, ReturnedSuccess)]
   \<and> ''Payment failed: Payment failed: Amount exceeds limit of 1000''
       \<noteq> ''Payment failed: Amount exceeds limit of 1000''"
  by (simp add: run_defs proxy_defs activity_defs start_defs order_o2_def)

section \<open>Failure results of the forward steps\<close>

text \<open>
  C6, as the code has it. The workflow tests the result of \<open>reserveInventory\<close> and of
  \<open>processPayment\<close>. When either returns a failure result, no forward capability is invoked
  afterwards: the calls that follow are \<open>ReleaseInventory\<close>, \<open>CancelOrder\<close> and the
  cancellation email, and the workflow returns a result that is not a success.
\<close>

theorem failure_result_stops_forward_steps:
  assumes "trace (snd (orderWorkflow acts od w)) = pre @ (c, ReturnedFailure) # post"
    and "c = ReserveInventory \<or> c = ProcessPayment"
  shows "forward_invoked post = []
         \<and> map fst post = [ReleaseInventory, CancelOrder, SendCancellationEmail]
         \<and> (\<exists>r. fst (orderWorkflow acts od w) = Inr r \<and> \<not> wf_success r)"
proof -
  obtain res s where run: "orderWorkflow acts od w = (res, s)"
    by (cases "orderWorkflow acts od w")
  have tr: "trace s = pre @ (c, ReturnedFailure) # post"
    using assms(1) run by simp
  then have mem: "(c, ReturnedFailure) \<in> set (trace s)"
    by simp
  have post: "distinct (map fst (trace s)) \<Longrightarrow>
      post = tl (dropWhile (\<lambda>e. fst e \<noteq> c) (trace s))"
    using post_of_split [OF tr] .
  from run show ?thesis
  proof (cases rule: orderWorkflow_cases)
    case (reserve_failed o1 c2 c3 c4)
    then show ?thesis
      using mem post assms(2) run
      by (auto simp: forward_invoked_def forward_capability_def)
  next
    case (payment_failed m o1 c2 c3 c4)
    then show ?thesis
      using mem post assms(2) run
      by (auto simp: forward_invoked_def forward_capability_def)
  qed (use mem assms(2) in auto)
qed

theorem failure_result_stops_forward_steps_witness:
  "trace (snd (orderWorkflow (scripted reservation_rejected) order_o1 ())) =
     [(CreateOrder, ReturnedSuccess)] @ (ReserveInventory, ReturnedFailure) #
     [(ReleaseInventory, ReturnedSuccess), (CancelOrder, ReturnedSuccess),
      (SendCancellationEmail, ReturnedSuccess)]
   \<and> forward_invoked [(ReleaseInventory, ReturnedSuccess), (CancelOrder, ReturnedSuccess),
        (SendCancellationEmail, ReturnedSuccess)] = []
   \<and> fst (orderWorkflow (scripted reservation_rejected) order_o1 ()) =
       Inr \<lparr>wf_success = False, wf_orderId = ''o1'',
            wf_message = ''Order cancelled and refunded'', wf_paymentId = None,
            error = Some ''Insufficient inventory''\<rparr>"
proof -
  have tr: "trace (snd (orderWorkflow (scripted reservation_rejected) order_o1 ())) =
     [(CreateOrder, ReturnedSuccess)] @ (ReserveInventory, ReturnedFailure) #
     [(ReleaseInventory, ReturnedSuccess), (CancelOrder, ReturnedSuccess),
      (SendCancellationEmail, ReturnedSuccess)]"
    by (simp add: run_defs scripted_def reservation_rejected_def ok_def order_o1_def)
  have which: "ReserveInventory = ReserveInventory \<or> ReserveInventory = ProcessPayment"
    by simp
  have res: "fst (orderWorkflow (scripted reservation_rejected) order_o1 ()) =
       Inr \<lparr>wf_success = False, wf_orderId = ''o1'',
            wf_message = ''Order cancelled and refunded'', wf_paymentId = None,
            error = Some ''Insufficient inventory''\<rparr>"
    by (simp add: run_defs scripted_def reservation_rejected_def ok_def order_o1_def)
  show ?thesis
    using tr res failure_result_stops_forward_steps [OF tr which] by simp
qed

text \<open>
  Order creation and the confirmation email return failure results, which the workflow
  does not look at: all four forward steps run and the result is a success.
\<close>

theorem unchecked_failure_results_counterexample:
  "fst (orderWorkflow (scripted unchecked_results_rejected) order_o1 ()) =
     Inr \<lparr>wf_success = True, wf_orderId = ''o1'',
          wf_message = ''Order processed successfully'', wf_paymentId = Some ''payment-1'',
          error = None\<rparr>
   \<and> trace (snd (orderWorkflow (scripted unchecked_results_rejected) order_o1 ())) =
       [(CreateOrder, ReturnedFailure), (ReserveInventory, ReturnedSuccess),
        (ProcessPayment, ReturnedSuccess), (SendConfirmationEmail, ReturnedFailure)]"
  by (simp add: run_defs scripted_def unchecked_results_rejected_def ok_def order_o1_def)

section \<open>The result of the workflow\<close>

lemma retry_resolved:
  "retry n call w = (Inr r, w') \<Longrightarrow> \<exists>w0. call w0 = (Inr r, w')"
  by (induction n arbitrary: w) (auto split: prod.splits sum.splits)

text \<open>
  On the activities of the repository a payment that returned success carries an
  identifier, so a success of the workflow does.
\<close>

lemma success_carries_payment_identifier:
  assumes "fst (orderWorkflow (proxyActivities envs) od w) = Inr r" and "wf_success r"
  shows "\<exists>pid. wf_paymentId r = Some pid \<and> pid \<noteq> []"
proof -
  obtain res s where run: "orderWorkflow (proxyActivities envs) od w = (res, s)"
    by (cases "orderWorkflow (proxyActivities envs) od w")
  have paid: "\<exists>pid. paymentId pr = Some pid \<and> pid \<noteq> []"
    if "fst (processPayment (proxyActivities envs) a b c w2) = Inr pr" and "success pr"
    for a b c w2 pr
  proof -
    from that(1) have "fst (retry (maximumAttempts - 1)
        (execute envs (\<lambda>env. processPaymentActivity env a b c)) w2) = Inr pr"
      by (simp add: proxyActivities_def proxy_def)
    then obtain w3 where "retry (maximumAttempts - 1)
        (execute envs (\<lambda>env. processPaymentActivity env a b c)) w2 = (Inr pr, w3)"
      by (metis prod.collapse)
    from retry_resolved [OF this] obtain w0 where
      "execute envs (\<lambda>env. processPaymentActivity env a b c) w0 = (Inr pr, w3)" ..
    then show ?thesis
      using that(2)
      by (auto simp: execute_def processPaymentActivity_def Let_def
          split: prod.splits if_splits)
  qed
  from run show ?thesis
  proof (cases rule: orderWorkflow_cases)
    case (completed paymentResult o1 o4)
    then show ?thesis
      using paid [OF completed(2,3)] assms run by auto
  qed (use assms run in auto)
qed

text \<open>
  C7, as the code has it. The workflow returns a result. It is a success exactly when the
  cancellation email was not sent, that is, when the \<open>catch\<close> block was not entered; and
  exactly when no compensation was executed and order creation did not throw. A success
  carries the order's identifier, the message \<open>Order processed successfully\<close>, the payment
  identifier of the result that \<open>processPayment\<close> returned, and no \<open>error\<close>. Any other result
  carries the order's identifier, the message \<open>Order cancelled and refunded\<close>, an \<open>error\<close>
  and no payment identifier.
\<close>

theorem outcome_shape:
  "\<exists>r s. orderWorkflow acts od w = (Inr r, s)
     \<and> (wf_success r \<longleftrightarrow> SendCancellationEmail \<notin> set (map fst (trace s)))
     \<and> (wf_success r \<longleftrightarrow>
          executed_compensations (trace s) = [] \<and> (CreateOrder, RaisedFault) \<notin> set (trace s))
     \<and> (wf_success r \<longrightarrow>
          error r = None \<and> wf_message r = ''Order processed successfully''
          \<and> wf_orderId r = orderId od
          \<and> (\<exists>paymentResult.
                fst (processPayment acts (orderId od) (userId od) (totalAmount od)
                       (snd (reserveInventory acts (orderId od) (items od)
                              (snd (createOrder acts od w))))) = Inr paymentResult
                \<and> success paymentResult \<and> wf_paymentId r = paymentId paymentResult))
     \<and> (\<not> wf_success r \<longrightarrow>
          (\<exists>m. error r = Some m) \<and> wf_message r = ''Order cancelled and refunded''
          \<and> wf_orderId r = orderId od \<and> wf_paymentId r = None)"
proof -
  obtain res s where run: "orderWorkflow acts od w = (res, s)"
    by (cases "orderWorkflow acts od w")
  from run show ?thesis
    by (cases rule: orderWorkflow_cases)
       (simp_all add: run executed_compensations_def compensation_capability_def)
qed

text \<open>Order \<open>o1\<close> on the activities of the repository, at a draw of 50: a success.\<close>

theorem outcome_shape_witness:
  "fst (orderWorkflow (proxyActivities envs0) order_o1 worker0) =
     Inr \<lparr>wf_success = True, wf_orderId = ''o1'',
          wf_message = ''Order processed successfully'',
          wf_paymentId = Some ''payment-1704067200000-k3x9q'', error = None\<rparr>
   \<and> executed_compensations (trace (snd (orderWorkflow (proxyActivities envs0) order_o1 worker0)))
       = []
   \<and> SendCancellationEmail
       \<notin> set (map fst (trace (snd (orderWorkflow (proxyActivities envs0) order_o1 worker0))))"
proof -
  have res: "fst (orderWorkflow (proxyActivities envs0) order_o1 worker0) =
     Inr \<lparr>wf_success = True, wf_orderId = ''o1'',
          wf_message = ''Order processed successfully'',
          wf_paymentId = Some ''payment-1704067200000-k3x9q'', error = None\<rparr>"
    by (simp add: run_defs proxy_defs activity_defs start_defs order_o1_def)
  show ?thesis
    using res outcome_shape [of "proxyActivities envs0" order_o1 worker0] by auto
qed

text \<open>
  Order creation throws: nothing was recorded, so no compensation is executed, and the
  result is not a success.
\<close>

theorem no_compensation_without_success_counterexample:
  "fst (orderWorkflow (scripted createOrder_faults) order_o1 ()) =
     Inr \<lparr>wf_success = False, wf_orderId = ''o1'',
          wf_message = ''Order cancelled and refunded'', wf_paymentId = None,
          error = Some ''order service down''\<rparr>
   \<and> trace (snd (orderWorkflow (scripted createOrder_faults) order_o1 ())) =
       [(CreateOrder, RaisedFault), (SendCancellationEmail, ReturnedSuccess)]
   \<and> executed_compensations (trace (snd (orderWorkflow (scripted createOrder_faults) order_o1 ())))
       = []"
  by (simp add: run_defs scripted_def createOrder_faults_def ok_def order_o1_def
      executed_compensations_def compensation_capability_def)

text \<open>
  C8. Whatever the capabilities return or throw, the workflow returns a result and throws
  nothing; when the \<open>try\<close> block ends by a throw, the result is the compensated one with the
  message of that throw.
\<close>

theorem orderWorkflow_never_throws:
  "\<exists>r s. orderWorkflow acts od w = (Inr r, s)
     \<and> (\<forall>e s1. forward acts od (initial w) = (Inl e, s1) \<longrightarrow>
          r = \<lparr>wf_success = False, wf_orderId = orderId od,
               wf_message = ''Order cancelled and refunded'', wf_paymentId = None,
               error = Some (errorMessageOf e)\<rparr>)"
proof (cases "forward acts od (initial w)")
  case (Pair r s1)
  show ?thesis
  proof (cases r)
    case (Inl e)
    then show ?thesis
      using Pair compensation_trace [of acts od e s1] by (auto simp: orderWorkflow_def)
  next
    case (Inr res)
    then show ?thesis
      using Pair by (simp add: orderWorkflow_def)
  qed
qed

text \<open>Every capability throws, the cancellation email included.\<close>

theorem orderWorkflow_never_throws_witness:
  "forward (scripted everything_faults) order_o1 (initial ()) =
     (Inl (Error ''service unavailable''),
      \<lparr>world = (), trace = [(CreateOrder, RaisedFault)], compensationSteps = []\<rparr>)
   \<and> fst (orderWorkflow (scripted everything_faults) order_o1 ()) =
       Inr \<lparr>wf_success = False, wf_orderId = ''o1'',
            wf_message = ''Order cancelled and refunded'', wf_paymentId = None,
            error = Some ''service unavailable''\<rparr>"
proof -
  have thrown: "forward (scripted everything_faults) order_o1 (initial ()) =
     (Inl (Error ''service unavailable''),
      \<lparr>world = (), trace = [(CreateOrder, RaisedFault)], compensationSteps = []\<rparr>)"
    by (simp add: run_defs scripted_def everything_faults_def order_o1_def)
  show ?thesis
    using thrown orderWorkflow_never_throws [of "scripted everything_faults" order_o1 "()"]
    by (auto simp: errorMessageOf_def order_o1_def)
qed

end
